theory Spec2Isabelle
  imports Complex_Main
begin

text \<open>
  The central system of an OCPP 1.6 installation, written with Django channels: the
  consumer that receives the frames of a charger (\<^verbatim>\<open>api/consumers.py\<close>), the callbacks
  that answer a charger's calls and the handler that issues calls to a charger
  (\<^verbatim>\<open>ocpp_lib/call.py\<close>), the decorator that builds a CallResult
  (\<^verbatim>\<open>ocpp_lib/decorators.py\<close>) and the payload types with their serialization
  (\<^verbatim>\<open>ocpp_lib/types.py\<close>). The code is embedded as functions on an explicit state (the
  two tables of stored messages, the frames handed to the channel layer, the log), with
  exceptions as values.
\<close>

section \<open>Python values, exceptions and the clock\<close>

text \<open>
  The exceptions that the modelled code raises or lets through. \<open>OCPPInvalidType\<close> and
  \<open>OCPPInvalidCommand\<close> are the two classes of \<^verbatim>\<open>ocpp_lib/exceptions.py\<close>;
  \<open>IntegrityError\<close> is what the database raises when a one-to-one column of
  \<^verbatim>\<open>api/models.py\<close> would hold the same reference twice.
\<close>

datatype error =
    AttributeError | IndexError | KeyError | TypeError | ValueError
  | UnboundLocalError | ZeroDivisionError
  | OCPPInvalidType | OCPPInvalidCommand | IntegrityError

text \<open>
  A naive \<^verbatim>\<open>datetime.datetime\<close> (what \<^verbatim>\<open>utcnow()\<close> returns) with the text that
  \<^verbatim>\<open>isoformat()\<close> gives for it: \<^verbatim>\<open>YYYY-MM-DDTHH:MM:SS\<close>, followed by
  \<^verbatim>\<open>.ffffff\<close> when the microsecond is not zero.
\<close>

record datetime =
  year :: nat
  month :: nat
  day :: nat
  hour :: nat
  minute :: nat
  second :: nat
  microsecond :: nat

fun digits :: "nat \<Rightarrow> nat \<Rightarrow> string" where
  "digits 0 n = []"
| "digits (Suc w) n = digits w (n div 10) @ [''0123456789'' ! (n mod 10)]"

definition isoformat :: "datetime \<Rightarrow> string" where
  "isoformat d =
     digits 4 (year d) @ ''-'' @ digits 2 (month d) @ ''-'' @ digits 2 (day d) @ ''T'' @
     digits 2 (hour d) @ '':'' @ digits 2 (minute d) @ '':'' @ digits 2 (second d) @
     (if microsecond d = 0 then [] else ''.'' @ digits 6 (microsecond d))"

text \<open>
  Python values as far as the code handles them. \<open>PEnum c n v\<close> is the member \<open>n\<close> of the
  enum class \<open>c\<close> whose \<^verbatim>\<open>.value\<close> is \<open>v\<close>; \<open>PObj c d\<close> is an instance of the
  \<^verbatim>\<open>OcppType\<close> subclass \<open>c\<close> whose private \<^verbatim>\<open>__data\<close> dictionary is \<open>d\<close>;
  a dictionary is the list of its items in insertion order (keys are strings);
  \<open>POther t\<close> is an object of any other type \<open>t\<close>. Floats are idealised as reals.
\<close>

datatype pyval =
    PNone
  | PBool bool
  | PInt int
  | PFloat real
  | PStr string
  | PList "pyval list"
  | PTuple "pyval list"
  | PDict "(string \<times> pyval) list"
  | PEnum string string pyval
  | PDateTime datetime
  | PObj string "(string \<times> pyval) list"
  | POther string

type_synonym kwargs = "(string \<times> pyval) list"

section \<open>The payload model: types.py\<close>

text \<open>
  \<^verbatim>\<open>OcppType.__init__\<close> keeps the keyword arguments whose value is not \<^verbatim>\<open>None\<close>.
\<close>

definition OcppType_init :: "kwargs \<Rightarrow> kwargs" where
  "OcppType_init kw = filter (\<lambda>(key, value). value \<noteq> PNone) kw"

text \<open>
  \<^verbatim>\<open>single_value_serialize\<close>, branch by branch in the order of the source: an enum gives
  its value, a datetime its \<^verbatim>\<open>isoformat()\<close>, an \<^verbatim>\<open>OcppType\<close> its own
  \<^verbatim>\<open>serialize()\<close>, an int, float, bool or str passes through. In the list branch the
  comprehension iterates over the builtin \<^verbatim>\<open>list\<close> (\<^verbatim>\<open>for one in list\<close>), and
  iterating over a type raises \<^verbatim>\<open>TypeError\<close>. Every other value raises
  \<^verbatim>\<open>ValueError\<close>. \<open>serialize_items\<close> is the dictionary comprehension of
  \<^verbatim>\<open>serialize\<close>: the items in order, the first exception propagating.
\<close>

fun single_value_serialize :: "pyval \<Rightarrow> error + pyval"
  and serialize_items :: "kwargs \<Rightarrow> error + kwargs" where
  "single_value_serialize (PEnum c n v) = Inr v"
| "single_value_serialize (PDateTime d) = Inr (PStr (isoformat d))"
| "single_value_serialize (PObj c d) =
     (case serialize_items d of Inl e \<Rightarrow> Inl e | Inr items \<Rightarrow> Inr (PDict items))"
| "single_value_serialize (PInt i) = Inr (PInt i)"
| "single_value_serialize (PFloat x) = Inr (PFloat x)"
| "single_value_serialize (PBool b) = Inr (PBool b)"
| "single_value_serialize (PStr s) = Inr (PStr s)"
| "single_value_serialize (PList xs) = Inl TypeError"
| "single_value_serialize PNone = Inl ValueError"
| "single_value_serialize (PTuple xs) = Inl ValueError"
| "single_value_serialize (PDict kvs) = Inl ValueError"
| "single_value_serialize (POther t) = Inl ValueError"
| "serialize_items [] = Inr []"
| "serialize_items ((key, value) # rest) =
     (case single_value_serialize value of
        Inl e \<Rightarrow> Inl e
      | Inr v \<Rightarrow> (case serialize_items rest of
                   Inl e \<Rightarrow> Inl e
                 | Inr items \<Rightarrow> Inr ((key, v) # items)))"

text \<open>
  The method call \<^verbatim>\<open>x.serialize()\<close>: only an \<^verbatim>\<open>OcppType\<close> instance has the method.
\<close>

definition serialize :: "pyval \<Rightarrow> error + pyval" where
  "serialize x = (case x of PObj c d \<Rightarrow> single_value_serialize (PObj c d) | _ \<Rightarrow> Inl AttributeError)"

text \<open>
  The constructors used below. Each passes its parameters, in the order of the signature,
  to \<^verbatim>\<open>OcppType.__init__\<close>; an optional parameter that is not given is \<open>PNone\<close>.
  \<^verbatim>\<open>ChargingSchedule\<close> wraps a \<^verbatim>\<open>chargingSchedulePeriod\<close> that is not a list into one.
\<close>

definition IdToken :: "pyval \<Rightarrow> pyval" where
  "IdToken tok = PObj ''IdToken'' (OcppType_init [(''IdToken'', tok)])"

definition IdTagInfo :: "pyval \<Rightarrow> pyval \<Rightarrow> pyval \<Rightarrow> pyval" where
  "IdTagInfo status parentIdTag expiryDate =
     PObj ''IdTagInfo'' (OcppType_init
       [(''status'', status), (''parentIdTag'', parentIdTag), (''expiryDate'', expiryDate)])"

definition ChargingSchedulePeriod :: "pyval \<Rightarrow> pyval \<Rightarrow> pyval \<Rightarrow> pyval" where
  "ChargingSchedulePeriod startPeriod limit numberPhases =
     PObj ''ChargingSchedulePeriod'' (OcppType_init
       [(''startPeriod'', startPeriod), (''limit'', limit), (''numberPhases'', numberPhases)])"

definition isinstance_list :: "pyval \<Rightarrow> bool" where
  "isinstance_list v = (case v of PList xs \<Rightarrow> True | _ \<Rightarrow> False)"

definition ChargingSchedule :: "pyval \<Rightarrow> pyval \<Rightarrow> pyval \<Rightarrow> pyval \<Rightarrow> pyval \<Rightarrow> pyval" where
  "ChargingSchedule chargingRateUnit chargingSchedulePeriod duration startSchedule minChargingRate =
     PObj ''ChargingSchedule'' (OcppType_init
       [(''chargingRateUnit'', chargingRateUnit),
        (''chargingSchedulePeriod'',
           if isinstance_list chargingSchedulePeriod then chargingSchedulePeriod
           else PList [chargingSchedulePeriod]),
        (''duration'', duration), (''startSchedule'', startSchedule),
        (''minChargingRate'', minChargingRate)])"

definition Authorize_Conf :: "pyval \<Rightarrow> pyval" where
  "Authorize_Conf idTagInfo = PObj ''Authorize_Conf'' (OcppType_init [(''idTagInfo'', idTagInfo)])"

definition BootNotification_Conf :: "pyval \<Rightarrow> pyval \<Rightarrow> pyval \<Rightarrow> pyval" where
  "BootNotification_Conf currentTime interval status =
     PObj ''BootNotification_Conf'' (OcppType_init
       [(''currentTime'', currentTime), (''interval'', interval), (''status'', status)])"

definition StatusNotification_Conf :: pyval where
  "StatusNotification_Conf = PObj ''StatusNotification_Conf'' (OcppType_init [])"

definition StartTransaction_Conf :: "pyval \<Rightarrow> pyval \<Rightarrow> pyval" where
  "StartTransaction_Conf idTagInfo transactionId =
     PObj ''StartTransaction_Conf'' (OcppType_init
       [(''idTagInfo'', idTagInfo), (''transactionId'', transactionId)])"

definition StopTransaction_Conf :: "pyval \<Rightarrow> pyval" where
  "StopTransaction_Conf idTagInfo =
     PObj ''StopTransaction_Conf'' (OcppType_init [(''idTagInfo'', idTagInfo)])"

definition MeterValues_Conf :: pyval where
  "MeterValues_Conf = PObj ''MeterValues_Conf'' (OcppType_init [])"

definition Heartbeat_Conf :: "pyval \<Rightarrow> pyval" where
  "Heartbeat_Conf currentTime = PObj ''Heartbeat_Conf'' (OcppType_init [(''currentTime'', currentTime)])"

definition DataTransfer_Conf :: "pyval \<Rightarrow> pyval \<Rightarrow> pyval" where
  "DataTransfer_Conf status data =
     PObj ''DataTransfer_Conf'' (OcppType_init [(''status'', status), (''data'', data)])"

definition DiagnosticsStatusNotification_Conf :: pyval where
  "DiagnosticsStatusNotification_Conf = PObj ''DiagnosticsStatusNotification_Conf'' (OcppType_init [])"

definition FirmwareStatusNotification_Conf :: pyval where
  "FirmwareStatusNotification_Conf = PObj ''FirmwareStatusNotification_Conf'' (OcppType_init [])"

definition RemoteStartTransaction_Req :: "pyval \<Rightarrow> pyval \<Rightarrow> pyval \<Rightarrow> pyval" where
  "RemoteStartTransaction_Req idTag chargingProfile connectorId =
     PObj ''RemoteStartTransaction_Req'' (OcppType_init
       [(''idTag'', idTag), (''chargingProfile'', chargingProfile), (''connectorId'', connectorId)])"

section \<open>The enums: enums.py\<close>

datatype OCPPMessageType = CALL | CALL_RESULT | CALL_ERROR

definition OCPPMessageType_value :: "OCPPMessageType \<Rightarrow> int" where
  "OCPPMessageType_value t = (case t of CALL \<Rightarrow> 2 | CALL_RESULT \<Rightarrow> 3 | CALL_ERROR \<Rightarrow> 4)"

text \<open>
  The lookup by value \<^verbatim>\<open>OCPPMessageType(v)\<close>: the member whose value equals \<open>v\<close>
  (Python compares \<^verbatim>\<open>2.0 == 2\<close> as equal), \<^verbatim>\<open>ValueError\<close> when there is none.
\<close>

definition OCPPMessageType_of_number :: "real \<Rightarrow> error + OCPPMessageType" where
  "OCPPMessageType_of_number x =
     (if x = 2 then Inr CALL else if x = 3 then Inr CALL_RESULT
      else if x = 4 then Inr CALL_ERROR else Inl ValueError)"

definition OCPPMessageType_lookup :: "pyval \<Rightarrow> error + OCPPMessageType" where
  "OCPPMessageType_lookup v =
     (case v of
        PInt n \<Rightarrow> OCPPMessageType_of_number (of_int n)
      | PFloat x \<Rightarrow> OCPPMessageType_of_number x
      | _ \<Rightarrow> Inl ValueError)"

text \<open>
  The members of \<^verbatim>\<open>OCPPCommands\<close> in declaration order; \<^verbatim>\<open>auto()\<close> numbers them
  from 1. \<open>OCPPCommands_getitem\<close> is the lookup by name \<^verbatim>\<open>OCPPCommands[action]\<close>: it
  gives the member's name, and \<open>None\<close> where Python raises (\<^verbatim>\<open>KeyError\<close> for a
  name that is no member, also for a key that is not a string).
\<close>

definition OCPPCommands :: "string list" where
  "OCPPCommands =
     [''Authorize'', ''BootNotification'', ''CancelReservation'', ''ChangeAvailability'',
      ''ChangeConfiguration'', ''ClearCache'', ''ClearChargingProfile'', ''DataTransfer'',
      ''DiagnosticsStatusNotification'', ''FirmwareStatusNotification'',
      ''GetCompositeSchedule'', ''GetConfiguration'', ''GetDiagnostics'',
      ''GetLocalListVersion'', ''Heartbeat'', ''MeterValues'', ''RemoteStartTransaction'',
      ''RemoteStopTransaction'', ''ReserveNow'', ''SendLocalList'', ''SetChargingProfile'',
      ''StartTransaction'', ''StatusNotification'', ''StopTransaction'', ''TriggerMessage'',
      ''UnlockConnector'', ''UpdateFirmware'']"

definition OCPPCommands_getitem :: "pyval \<Rightarrow> string option" where
  "OCPPCommands_getitem action =
     (case action of
        PStr name \<Rightarrow> (if name \<in> set OCPPCommands then Some name else None)
      | _ \<Rightarrow> None)"

fun index_of :: "string \<Rightarrow> string list \<Rightarrow> nat" where
  "index_of name [] = 0"
| "index_of name (x # xs) = (if x = name then 0 else Suc (index_of name xs))"

definition OCPPCommands_value :: "string \<Rightarrow> int" where
  "OCPPCommands_value name = int (index_of name OCPPCommands) + 1"

definition AuthorizationStatus_Accepted :: pyval where
  "AuthorizationStatus_Accepted = PEnum ''AuthorizationStatus'' ''Accepted'' (PStr ''Accepted'')"

definition RegistrationStatus_Accepted :: pyval where
  "RegistrationStatus_Accepted = PEnum ''RegistrationStatus'' ''Accepted'' (PStr ''Accepted'')"

definition DataTransferStatus_Accepted :: pyval where
  "DataTransferStatus_Accepted = PEnum ''DataTransferStatus'' ''Accepted'' (PStr ''Accepted'')"

definition ChargingRateUnitType_A :: pyval where
  "ChargingRateUnitType_A = PEnum ''ChargingRateUnitType'' ''A'' (PStr ''A'')"

section \<open>The decorator for CALL-RESULT messages: decorators.py\<close>

text \<open>
  A Python function called as \<^verbatim>\<open>function(*args, **kwargs)\<close>: it gets the positional
  and the keyword arguments and returns a value or raises.
\<close>

type_synonym pyfunction = "pyval list \<Rightarrow> kwargs \<Rightarrow> error + pyval"

definition isinstance_dict :: "pyval \<Rightarrow> bool" where
  "isinstance_dict v = (case v of PDict kvs \<Rightarrow> True | _ \<Rightarrow> False)"

text \<open>
  The first statement of \<^verbatim>\<open>inner\<close>: the payload is
  \<^verbatim>\<open>function(*args, **kwargs).serialize()\<close>, and when that raises (in the call or in
  \<^verbatim>\<open>serialize\<close>) the bare \<^verbatim>\<open>except\<close> sets it to \<^verbatim>\<open>function(*args, **kwargs)\<close>,
  a second call whose exception is not caught.
\<close>

definition decorator_payload :: "pyfunction \<Rightarrow> pyval list \<Rightarrow> kwargs \<Rightarrow> error + pyval" where
  "decorator_payload function args kw =
     (case (case function args kw of Inl e \<Rightarrow> Inl e | Inr r \<Rightarrow> serialize r) of
        Inr payload \<Rightarrow> Inr payload
      | Inl e \<Rightarrow> function args kw)"

definition dict_get :: "kwargs \<Rightarrow> string \<Rightarrow> pyval" where
  "dict_get kw key = (case map_of kw key of None \<Rightarrow> PNone | Some v \<Rightarrow> v)"

definition call_result_message_decorator :: "pyfunction \<Rightarrow> pyfunction" where
  "call_result_message_decorator function args kw =
     (case decorator_payload function args kw of
        Inl e \<Rightarrow> Inl e
      | Inr payload \<Rightarrow>
          if \<not> isinstance_dict payload then Inl ValueError
          else if ''message_id'' \<notin> set (map fst kw) then Inl KeyError
          else Inr (PList [PInt (OCPPMessageType_value CALL_RESULT),
                           dict_get kw ''message_id'', payload]))"

section \<open>The callbacks: call.py, class Call.Callbacks\<close>

text \<open>
  How Python binds the arguments of a call to the parameters of a \<^verbatim>\<open>def\<close> without
  defaults: positional arguments fill the parameters from the left, each keyword must name
  a parameter that is still free, and no parameter may stay unbound; anything else is a
  \<^verbatim>\<open>TypeError\<close>.
\<close>

definition bind_params :: "string list \<Rightarrow> pyval list \<Rightarrow> kwargs \<Rightarrow> error + kwargs" where
  "bind_params params args kw =
     (let free = drop (length args) params in
      if length params < length args then Inl TypeError
      else if \<not> list_all (\<lambda>k. k \<in> set free) (map fst kw) then Inl TypeError
      else if \<not> list_all (\<lambda>p. p \<in> set (map fst kw)) free then Inl TypeError
      else Inr (zip params args @ kw))"

text \<open>
  The ten callbacks, before decoration. Each takes \<^verbatim>\<open>(message_id, call_payload)\<close>,
  ignores both and returns a fixed confirmation; \<open>now\<close> is what
  \<^verbatim>\<open>datetime.datetime.utcnow()\<close> returns inside the callback.
\<close>

definition callback_body :: "pyval \<Rightarrow> pyfunction" where
  "callback_body conf args kw =
     (case bind_params [''message_id'', ''call_payload''] args kw of
        Inl e \<Rightarrow> Inl e
      | Inr bound \<Rightarrow> Inr conf)"

definition Authorize :: pyfunction where
  "Authorize = callback_body (Authorize_Conf (IdTagInfo AuthorizationStatus_Accepted PNone PNone))"

definition BootNotification :: "datetime \<Rightarrow> pyfunction" where
  "BootNotification now =
     callback_body (BootNotification_Conf (PDateTime now) (PInt 10) RegistrationStatus_Accepted)"

definition StatusNotification :: pyfunction where
  "StatusNotification = callback_body StatusNotification_Conf"

definition StartTransaction :: pyfunction where
  "StartTransaction =
     callback_body (StartTransaction_Conf (IdTagInfo AuthorizationStatus_Accepted PNone PNone) (PInt 1))"

definition StopTransaction :: pyfunction where
  "StopTransaction = callback_body (StopTransaction_Conf PNone)"

definition MeterValues :: pyfunction where
  "MeterValues = callback_body MeterValues_Conf"

definition Heartbeat :: "datetime \<Rightarrow> pyfunction" where
  "Heartbeat now = callback_body (Heartbeat_Conf (PDateTime now))"

definition FirmwareStatusNotification :: pyfunction where
  "FirmwareStatusNotification = callback_body FirmwareStatusNotification_Conf"

definition DiagnosticsStatusNotification :: pyfunction where
  "DiagnosticsStatusNotification = callback_body DiagnosticsStatusNotification_Conf"

definition DataTransfer :: pyfunction where
  "DataTransfer = callback_body (DataTransfer_Conf DataTransferStatus_Accepted PNone)"

text \<open>
  The class \<^verbatim>\<open>Call.Callbacks\<close> as the table that \<^verbatim>\<open>getattr(Call.Callbacks, name)\<close>
  reads: every callback is wrapped by the decorator, and a name without a callback gives
  \<open>None\<close> (\<^verbatim>\<open>getattr\<close> raises \<^verbatim>\<open>AttributeError\<close>).
\<close>

type_synonym callbacks = "datetime \<Rightarrow> string \<Rightarrow> pyfunction option"

definition Callbacks :: callbacks where
  "Callbacks now = map_of
     [(''Authorize'', call_result_message_decorator Authorize),
      (''BootNotification'', call_result_message_decorator (BootNotification now)),
      (''StatusNotification'', call_result_message_decorator StatusNotification),
      (''StartTransaction'', call_result_message_decorator StartTransaction),
      (''StopTransaction'', call_result_message_decorator StopTransaction),
      (''MeterValues'', call_result_message_decorator MeterValues),
      (''Heartbeat'', call_result_message_decorator (Heartbeat now)),
      (''FirmwareStatusNotification'', call_result_message_decorator FirmwareStatusNotification),
      (''DiagnosticsStatusNotification'', call_result_message_decorator DiagnosticsStatusNotification),
      (''DataTransfer'', call_result_message_decorator DataTransfer)]"

section \<open>The stored messages: models.py\<close>

text \<open>
  A row of the table of \<^verbatim>\<open>Call\<close> and of \<^verbatim>\<open>CallResult\<close>. A row's primary key is its
  position in the table (rows are never deleted), and a model instance is a row together
  with its primary key, \<open>None\<close> before the first \<^verbatim>\<open>save()\<close>. The two one-to-one
  columns hold the primary key of the linked row. A column keeps the value it was given:
  the conversions of the database (a text column returns the \<^verbatim>\<open>str()\<close> of a dictionary
  stored in it) are not modelled, and lookups compare values for equality.
  \<^verbatim>\<open>sent_at\<close> is filled in by the database (\<^verbatim>\<open>auto_now_add\<close>) and is left out.
\<close>

record call_row =
  call_message_type_id :: pyval
  call_message_id :: pyval
  call_action :: pyval
  call_payload :: pyval
  call_charger_id :: string
  call_direction :: string
  call_call_result_obj :: "nat option"

record result_row =
  res_message_type_id :: pyval
  res_message_id :: pyval
  res_payload :: pyval
  res_charger_id :: string
  res_direction :: string
  res_call_obj :: "nat option"

datatype log_level = INFO | WARNING | ERROR | CRITICAL

text \<open>
  What the code reads and writes: the two tables, the frames handed to the channel layer
  (\<^verbatim>\<open>group_send\<close>: the group and the value given to \<^verbatim>\<open>json.dumps\<close>), and the level
  of every log record, in order.
\<close>

record world =
  calls :: "call_row list"
  results :: "result_row list"
  sent :: "(string \<times> pyval) list"
  logs :: "log_level list"

definition log :: "log_level \<Rightarrow> world \<Rightarrow> world" where
  "log l w = w\<lparr>logs := logs w @ [l]\<rparr>"

definition group_send :: "string \<Rightarrow> pyval \<Rightarrow> world \<Rightarrow> world" where
  "group_send group_name message w = w\<lparr>sent := sent w @ [(group_name, message)]\<rparr>"

text \<open>
  \<^verbatim>\<open>save()\<close>: an instance without primary key is inserted at the end of its table, one
  with a primary key overwrites its row. A \<^verbatim>\<open>OneToOneField\<close> is a unique column: the
  database refuses, with \<^verbatim>\<open>IntegrityError\<close>, a row whose reference another row holds.
\<close>

definition Call_save :: "nat option \<times> call_row \<Rightarrow> world \<Rightarrow> (error + nat option \<times> call_row) \<times> world" where
  "Call_save obj w =
     (if call_call_result_obj (snd obj) \<noteq> None \<and>
         list_ex (\<lambda>(j, r). Some j \<noteq> fst obj \<and> call_call_result_obj r = call_call_result_obj (snd obj))
                 (enumerate 0 (calls w))
      then (Inl IntegrityError, w)
      else case fst obj of
             None \<Rightarrow> (Inr (Some (length (calls w)), snd obj), w\<lparr>calls := calls w @ [snd obj]\<rparr>)
           | Some k \<Rightarrow> (Inr obj, w\<lparr>calls := (calls w)[k := snd obj]\<rparr>))"

definition CallResult_save :: "nat option \<times> result_row \<Rightarrow> world \<Rightarrow> (error + nat option \<times> result_row) \<times> world" where
  "CallResult_save obj w =
     (if res_call_obj (snd obj) \<noteq> None \<and>
         list_ex (\<lambda>(j, r). Some j \<noteq> fst obj \<and> res_call_obj r = res_call_obj (snd obj))
                 (enumerate 0 (results w))
      then (Inl IntegrityError, w)
      else case fst obj of
             None \<Rightarrow> (Inr (Some (length (results w)), snd obj), w\<lparr>results := results w @ [snd obj]\<rparr>)
           | Some k \<Rightarrow> (Inr obj, w\<lparr>results := (results w)[k := snd obj]\<rparr>))"

text \<open>
  \<^verbatim>\<open>Call.objects.filter(message_id = m)\<close>: the instances with that message id, in table
  order. \<^verbatim>\<open>CallResult.objects.get(message_id = m)\<close>: the row with that message id when
  there is exactly one, and \<open>None\<close> where \<^verbatim>\<open>get\<close> raises (no row, or several).
\<close>

definition Call_objects_filter :: "pyval \<Rightarrow> world \<Rightarrow> (nat option \<times> call_row) list" where
  "Call_objects_filter m w =
     map (\<lambda>(j, r). (Some j, r)) (filter (\<lambda>(j, r). call_message_id r = m) (enumerate 0 (calls w)))"

definition CallResult_objects_get :: "pyval \<Rightarrow> result_row list \<Rightarrow> result_row option" where
  "CallResult_objects_get m table =
     (case filter (\<lambda>r. res_message_id r = m) table of [r] \<Rightarrow> Some r | _ \<Rightarrow> None)"

section \<open>The consumer of a charger's connection: consumers.py\<close>

text \<open>
  \<^verbatim>\<open>save_and_link_call_and_result\<close>: both instances are saved, linked to each other, and
  saved again; an exception of a \<^verbatim>\<open>save()\<close> ends the method.
\<close>

definition save_and_link_call_and_result ::
  "nat option \<times> call_row \<Rightarrow> nat option \<times> result_row \<Rightarrow> world \<Rightarrow> (error + unit) \<times> world" where
  "save_and_link_call_and_result call_obj call_result_obj w =
     (case Call_save call_obj w of
        (Inl e, w1) \<Rightarrow> (Inl e, w1)
      | (Inr c1, w1) \<Rightarrow>
     (case CallResult_save call_result_obj w1 of
        (Inl e, w2) \<Rightarrow> (Inl e, w2)
      | (Inr r1, w2) \<Rightarrow>
     (case Call_save (fst c1, (snd c1)\<lparr>call_call_result_obj := fst r1\<rparr>) w2 of
        (Inl e, w3) \<Rightarrow> (Inl e, w3)
      | (Inr c2, w3) \<Rightarrow>
     (case CallResult_save (fst r1, (snd r1)\<lparr>res_call_obj := fst c2\<rparr>) w3 of
        (Inl e, w4) \<Rightarrow> (Inl e, w4)
      | (Inr r2, w4) \<Rightarrow> (Inr (), w4)))))"

text \<open>
  The subscript \<^verbatim>\<open>x[i]\<close> for an index \<open>i \<ge> 0\<close> and the slice \<^verbatim>\<open>x[1:]\<close>; a dictionary
  of string keys has no integer key.
\<close>

definition subscript :: "pyval \<Rightarrow> nat \<Rightarrow> error + pyval" where
  "subscript x i =
     (case x of
        PList xs \<Rightarrow> (if i < length xs then Inr (xs ! i) else Inl IndexError)
      | PTuple xs \<Rightarrow> (if i < length xs then Inr (xs ! i) else Inl IndexError)
      | PStr s \<Rightarrow> (if i < length s then Inr (PStr [s ! i]) else Inl IndexError)
      | PDict kvs \<Rightarrow> Inl KeyError
      | _ \<Rightarrow> Inl TypeError)"

definition slice_from_1 :: "pyval \<Rightarrow> error + pyval list" where
  "slice_from_1 x =
     (case x of
        PList xs \<Rightarrow> Inr (drop 1 xs)
      | PTuple xs \<Rightarrow> Inr (drop 1 xs)
      | PStr s \<Rightarrow> Inr (map (\<lambda>c. PStr [c]) (drop 1 s))
      | _ \<Rightarrow> Inl TypeError)"

text \<open>
  \<^verbatim>\<open>json.dumps\<close> raises \<^verbatim>\<open>TypeError\<close> on a value that is not made of None, booleans,
  numbers, strings, lists, tuples and dictionaries. The text it produces is not modelled:
  a frame is recorded as the value that was dumped.
\<close>

fun json_serializable :: "pyval \<Rightarrow> bool"
  and json_serializable_list :: "pyval list \<Rightarrow> bool"
  and json_serializable_items :: "kwargs \<Rightarrow> bool" where
  "json_serializable PNone = True"
| "json_serializable (PBool b) = True"
| "json_serializable (PInt i) = True"
| "json_serializable (PFloat x) = True"
| "json_serializable (PStr s) = True"
| "json_serializable (PList xs) = json_serializable_list xs"
| "json_serializable (PTuple xs) = json_serializable_list xs"
| "json_serializable (PDict kvs) = json_serializable_items kvs"
| "json_serializable (PEnum c n v) = False"
| "json_serializable (PDateTime d) = False"
| "json_serializable (PObj c d) = False"
| "json_serializable (POther t) = False"
| "json_serializable_list [] = True"
| "json_serializable_list (x # xs) = (json_serializable x \<and> json_serializable_list xs)"
| "json_serializable_items [] = True"
| "json_serializable_items ((k, v) # kvs) = (json_serializable v \<and> json_serializable_items kvs)"

definition json_dumps :: "pyval \<Rightarrow> error + pyval" where
  "json_dumps v = (if json_serializable v then Inr v else Inl TypeError)"

text \<open>
  The \<^verbatim>\<open>else\<close> branch of the callback's \<^verbatim>\<open>try\<close>: the response is sent to the charger's
  group, then the received call and the response are stored and linked. Nothing here is
  inside a \<^verbatim>\<open>try\<close>.
\<close>

definition send_and_store :: "string \<Rightarrow> pyval \<Rightarrow> string \<Rightarrow> pyval \<Rightarrow> pyval \<Rightarrow> world \<Rightarrow> (error + unit) \<times> world" where
  "send_and_store charger_id message_id name payload response w =
     (case json_dumps response of
        Inl e \<Rightarrow> (Inl e, w)
      | Inr dumped \<Rightarrow>
          let w1 = log INFO (group_send (''ocpp_'' @ charger_id) dumped w) in
          (case subscript response 0 of Inl e \<Rightarrow> (Inl e, w1) | Inr r0 \<Rightarrow>
          (case subscript response 1 of Inl e \<Rightarrow> (Inl e, w1) | Inr r1 \<Rightarrow>
          (case subscript response 2 of Inl e \<Rightarrow> (Inl e, w1) | Inr r2 \<Rightarrow>
             save_and_link_call_and_result
               (None, \<lparr>call_message_type_id = PInt (OCPPMessageType_value CALL),
                       call_message_id = message_id, call_action = PStr name,
                       call_payload = payload, call_charger_id = charger_id,
                       call_direction = ''C2S'', call_call_result_obj = None\<rparr>)
               (None, \<lparr>res_message_type_id = r0, res_message_id = r1, res_payload = r2,
                       res_charger_id = charger_id, res_direction = ''S2C'',
                       res_call_obj = None\<rparr>)
               w1))))"

text \<open>
  The branch for a Call. The three elements are read first (\<^verbatim>\<open>IndexError\<close> when one is
  missing). An action that is no member of \<^verbatim>\<open>OCPPCommands\<close> is logged as critical and
  \<^verbatim>\<open>receive\<close> returns. \<open>invoke_callback\<close> is the expression
  \<^verbatim>\<open>getattr(Call.Callbacks, action.name)(message_id = ..., call_payload = ...)\<close>: the
  callback is looked up by name and called with two keyword arguments. An
  \<^verbatim>\<open>AttributeError\<close> is logged as a warning, any other exception with
  \<^verbatim>\<open>logger.exception\<close>, and in both cases nothing else happens.
\<close>

definition invoke_callback :: "callbacks \<Rightarrow> datetime \<Rightarrow> string \<Rightarrow> pyval \<Rightarrow> pyval \<Rightarrow> error + pyval" where
  "invoke_callback cbs now name message_id payload =
     (case cbs now name of
        None \<Rightarrow> Inl AttributeError
      | Some callback \<Rightarrow> callback [] [(''message_id'', message_id), (''call_payload'', payload)])"

definition receive_call :: "callbacks \<Rightarrow> datetime \<Rightarrow> string \<Rightarrow> pyval \<Rightarrow> world \<Rightarrow> (error + unit) \<times> world" where
  "receive_call cbs now charger_id message w =
     (case subscript message 1 of Inl e \<Rightarrow> (Inl e, w) | Inr message_id \<Rightarrow>
     (case subscript message 2 of Inl e \<Rightarrow> (Inl e, w) | Inr action \<Rightarrow>
     (case subscript message 3 of Inl e \<Rightarrow> (Inl e, w) | Inr payload \<Rightarrow>
     (case OCPPCommands_getitem action of
        None \<Rightarrow> (Inr (), log CRITICAL w)
      | Some name \<Rightarrow>
          (case invoke_callback cbs now name message_id payload of
             Inl e \<Rightarrow> (Inr (), log (if e = AttributeError then WARNING else ERROR) w)
           | Inr response \<Rightarrow>
               send_and_store charger_id message_id name payload response (log INFO w))))))"

text \<open>
  The branch for a CallResult. \<^verbatim>\<open>message_id, payload = message[1:]\<close> needs exactly two
  elements (\<^verbatim>\<open>ValueError\<close> otherwise). When a stored call has the message id, the first
  one is linked to a new \<^verbatim>\<open>CallResult\<close> instance, \<open>received_call_result\<close>, that
  carries this connection's charger id; otherwise a critical record is logged.
\<close>

definition received_call_result :: "string \<Rightarrow> pyval \<Rightarrow> pyval \<Rightarrow> nat option \<Rightarrow> result_row" where
  "received_call_result charger_id message_id payload call_obj =
     \<lparr>res_message_type_id = PInt (OCPPMessageType_value CALL_RESULT),
      res_message_id = message_id, res_payload = payload,
      res_charger_id = charger_id, res_direction = ''C2S'',
      res_call_obj = call_obj\<rparr>"

definition receive_call_result :: "string \<Rightarrow> pyval \<Rightarrow> world \<Rightarrow> (error + unit) \<times> world" where
  "receive_call_result charger_id message w =
     (case slice_from_1 message of
        Inl e \<Rightarrow> (Inl e, w)
      | Inr [message_id, payload] \<Rightarrow>
          (case Call_objects_filter message_id w of
             [] \<Rightarrow> (Inr (), log CRITICAL w)
           | call_obj # others \<Rightarrow>
               save_and_link_call_and_result call_obj
                 (None, received_call_result charger_id message_id payload (fst call_obj)) w)
      | Inr other \<Rightarrow> (Inl ValueError, w))"

text \<open>
  \<^verbatim>\<open>OcppConsumer.receive\<close> for the charger \<open>charger_id\<close>, on the value \<open>message\<close> that
  \<^verbatim>\<open>json.loads\<close> returned. When \<^verbatim>\<open>message[0]\<close> itself raises, the handler of the first
  \<^verbatim>\<open>try\<close> evaluates \<^verbatim>\<open>message[0]\<close> again for its log text, and that exception leaves
  \<^verbatim>\<open>receive\<close>. When \<^verbatim>\<open>OCPPMessageType(message[0])\<close> raises, the handler logs a critical
  record and goes on to the comparison \<^verbatim>\<open>message_type_id == ...\<close> with
  \<^verbatim>\<open>message_type_id\<close> unbound. A CallError is only logged.
\<close>

definition receive :: "callbacks \<Rightarrow> datetime \<Rightarrow> string \<Rightarrow> pyval \<Rightarrow> world \<Rightarrow> (error + unit) \<times> world" where
  "receive cbs now charger_id message w =
     (let w0 = log INFO w in
      case subscript message 0 of
        Inl e \<Rightarrow> (Inl e, w0)
      | Inr v \<Rightarrow>
          (case OCPPMessageType_lookup v of
             Inl e \<Rightarrow> (Inl UnboundLocalError, log CRITICAL w0)
           | Inr CALL \<Rightarrow> receive_call cbs now charger_id message (log INFO w0)
           | Inr CALL_RESULT \<Rightarrow> receive_call_result charger_id message (log INFO w0)
           | Inr CALL_ERROR \<Rightarrow> (Inr (), log INFO w0)))"

section \<open>Issuing calls: call.py, class Call.CallHandler\<close>

text \<open>
  \<^verbatim>\<open>int(x)\<close> on a float truncates towards zero.
\<close>

definition py_int :: "real \<Rightarrow> int" where
  "py_int x = (if 0 \<le> x then \<lfloor>x\<rfloor> else \<lceil>x\<rceil>)"

text \<open>
  The loop of \<^verbatim>\<open>__await_response\<close>. While the caller sleeps between two checks other
  tasks write the table, so the loop is given the table \<open>tables i\<close> that the check
  number \<open>i\<close> reads. \<open>poll tables m i n\<close> runs the \<open>n\<close> iterations that are left after
  \<open>i\<close> checks: a check that finds exactly one row returns the triple of its message type,
  message id and payload; every exception of \<^verbatim>\<open>get\<close> is swallowed and the loop sleeps
  and goes on; after the last iteration the result is \<^verbatim>\<open>None\<close>. The second component
  counts the checks that were made.
\<close>

fun poll :: "(nat \<Rightarrow> result_row list) \<Rightarrow> pyval \<Rightarrow> nat \<Rightarrow> nat \<Rightarrow> pyval \<times> nat" where
  "poll tables m i 0 = (PNone, i)"
| "poll tables m i (Suc n) =
     (case CallResult_objects_get m (tables i) of
        Some obj \<Rightarrow> (PTuple [res_message_type_id obj, res_message_id obj, res_payload obj], Suc i)
      | None \<Rightarrow> poll tables m (Suc i) n)"

text \<open>
  \<^verbatim>\<open>await_cycles = int(await_period / await_interval)\<close>, with \<^verbatim>\<open>ZeroDivisionError\<close>
  for an interval of zero; \<^verbatim>\<open>range(0, await_cycles, 1)\<close> is empty when
  \<^verbatim>\<open>await_cycles\<close> is not positive.
\<close>

definition await_response :: "(nat \<Rightarrow> result_row list) \<Rightarrow> pyval \<Rightarrow> real \<Rightarrow> real \<Rightarrow> error + pyval \<times> nat" where
  "await_response tables message_id await_period await_interval =
     (if await_interval = 0 then Inl ZeroDivisionError
      else Inr (poll tables message_id 0 (nat (py_int (await_period / await_interval)))))"

text \<open>
  The attributes that the classes of \<^verbatim>\<open>ocpp_lib/types.py\<close> define; what they inherit
  from \<^verbatim>\<open>object\<close> and \<^verbatim>\<open>type\<close> has other names. \<open>class_getattr request name\<close> is
  the attribute lookup \<^verbatim>\<open>request.__class__.name\<close> on the class of a request that is
  an \<^verbatim>\<open>OcppType\<close>, as the signature of \<^verbatim>\<open>issue_command\<close> asks; for any other
  value the \<^verbatim>\<open>try\<close> of \<^verbatim>\<open>issue_command\<close> fails as well.
\<close>

definition ocpp_class_attributes :: "string list" where
  "ocpp_class_attributes = [''__init__'', ''serialize'', ''__str__'', ''__repr__'']"

definition class_getattr :: "pyval \<Rightarrow> string \<Rightarrow> error + pyval" where
  "class_getattr request name =
     (case request of
        PObj c d \<Rightarrow> (if name \<in> set ocpp_class_attributes then Inr (POther ''function'')
                     else Inl AttributeError)
      | _ \<Rightarrow> Inl AttributeError)"

definition class_name :: "pyval \<Rightarrow> string" where
  "class_name request = (case request of PObj c d \<Rightarrow> c | _ \<Rightarrow> [])"

text \<open>
  The action name \<^verbatim>\<open>str(type(request)).split('.')[-1].strip("'>").split('_')[0]\<close>:
  the class name up to its first underscore.
\<close>

definition action_of_class :: "string \<Rightarrow> string" where
  "action_of_class c = takeWhile (\<lambda>ch. ch \<noteq> CHR ''_'') c"

definition save_call :: "OCPPMessageType \<Rightarrow> pyval \<Rightarrow> string \<Rightarrow> pyval \<Rightarrow> string \<Rightarrow> world
    \<Rightarrow> (error + nat option \<times> call_row) \<times> world" where
  "save_call message_type message_id action payload charger_id w =
     Call_save
       (None, \<lparr>call_message_type_id = PInt (OCPPMessageType_value message_type),
               call_message_id = message_id, call_action = PInt (OCPPCommands_value action),
               call_payload = payload, call_charger_id = charger_id,
               call_direction = ''S2C'', call_call_result_obj = None\<rparr>)
       w"

text \<open>
  \<^verbatim>\<open>issue_command\<close>; \<open>random_id\<close> is what \<^verbatim>\<open>random_message_id()\<close> returns. The first
  statement evaluates \<^verbatim>\<open>request.__class__.split('.')\<close> inside a \<^verbatim>\<open>try\<close> whose bare
  \<^verbatim>\<open>except\<close> raises \<^verbatim>\<open>OCPPInvalidType\<close>. The rest builds the Call frame, stores it,
  hands it to the channel layer and, when asked to, awaits the response.
\<close>

definition issue_command ::
  "string \<Rightarrow> (nat \<Rightarrow> result_row list) \<Rightarrow> string \<Rightarrow> pyval \<Rightarrow> bool \<Rightarrow> real \<Rightarrow> real \<Rightarrow> world
     \<Rightarrow> (error + pyval) \<times> world" where
  "issue_command random_id tables charger_id request shouldAwait await_period await_interval w =
     (case class_getattr request ''split'' of
        Inl e \<Rightarrow> (Inl OCPPInvalidType, w)
      | Inr split \<Rightarrow>
     (case serialize request of
        Inl e \<Rightarrow> (Inl e, w)
      | Inr payload \<Rightarrow>
          let message_id = PStr random_id;
              action = action_of_class (class_name request);
              ocpp_message = PList [PInt (OCPPMessageType_value CALL), message_id, PStr action, payload]
          in
     (case OCPPCommands_getitem (PStr action) of
        None \<Rightarrow> (Inl KeyError, w)
      | Some name \<Rightarrow>
     (case save_call CALL message_id name payload charger_id w of
        (Inl e, w1) \<Rightarrow> (Inl e, w1)
      | (Inr call_object, w1) \<Rightarrow>
     (case json_dumps ocpp_message of
        Inl e \<Rightarrow> (Inl e, w1)
      | Inr dumped \<Rightarrow>
          let w2 = group_send (''ocpp_'' @ charger_id) dumped w1 in
          if shouldAwait then
            (case await_response tables message_id await_period await_interval of
               Inl e \<Rightarrow> (Inl e, w2)
             | Inr (response, checks) \<Rightarrow> (Inr response, w2))
          else (Inr PNone, w2))))))"

section \<open>Example inputs\<close>

definition example_time :: datetime where
  "example_time =
     \<lparr>year = 2021, month = 6, day = 12, hour = 9, minute = 5, second = 7, microsecond = 0\<rparr>"

definition empty_world :: world where
  "empty_world = \<lparr>calls = [], results = [], sent = [], logs = []\<rparr>"

text \<open>
  \<^verbatim>\<open>RemoteStartTransaction_Req(idTag = IdToken(IdToken = "abc"), connectorId = 1)\<close>.
\<close>

definition remote_start_request :: pyval where
  "remote_start_request = RemoteStartTransaction_Req (IdToken (PStr ''abc'')) PNone (PInt 1)"

text \<open>
  \<^verbatim>\<open>ChargingSchedule(chargingRateUnit = ChargingRateUnitType.A,
  chargingSchedulePeriod = [ChargingSchedulePeriod(startPeriod = 0, limit = 8)])\<close>.
\<close>

definition example_schedule :: pyval where
  "example_schedule =
     ChargingSchedule ChargingRateUnitType_A
       (PList [ChargingSchedulePeriod (PInt 0) (PInt 8) PNone]) PNone PNone PNone"



text \<open>
  The state after a call with the message id \<^verbatim>\<open>id1\<close> was stored for the charger
  \<^verbatim>\<open>CP1\<close> and handed to the channel layer, as the second half of \<^verbatim>\<open>issue_command\<close>
  leaves it: one stored call from the server to the charger, not answered yet.
\<close>

definition remote_start_frame :: pyval where
  "remote_start_frame =
     PList [PInt 2, PStr ''id1'', PStr ''RemoteStartTransaction'',
            PDict [(''idTag'', PDict [(''IdToken'', PStr ''abc'')]), (''connectorId'', PInt 1)]]"

definition world_with_call :: world where
  "world_with_call =
     \<lparr>calls = [\<lparr>call_message_type_id = PInt 2, call_message_id = PStr ''id1'',
                 call_action = PInt 17,
                 call_payload = PDict [(''idTag'', PDict [(''IdToken'', PStr ''abc'')]),
                                       (''connectorId'', PInt 1)],
                 call_charger_id = ''CP1'', call_direction = ''S2C'',
                 call_call_result_obj = None\<rparr>],
      results = [],
      sent = [(''ocpp_CP1'', remote_start_frame)],
      logs = []\<rparr>"

text \<open>The frame \<^verbatim>\<open>[3, "id1", {"status": "Accepted"}]\<close>.\<close>

definition accepted_reply :: pyval where
  "accepted_reply = PList [PInt 3, PStr ''id1'', PDict [(''status'', PStr ''Accepted'')]]"

text \<open>
  The shape of an ISO 8601 timestamp with date and time: with every digit replaced by
  \<^verbatim>\<open>d\<close> the text reads \<^verbatim>\<open>dddd-dd-ddTdd:dd:dd\<close>, with an optional fraction of six
  digits.
\<close>

definition mask :: "string \<Rightarrow> string" where
  "mask s = map (\<lambda>c. if c \<in> set ''0123456789'' then CHR ''d'' else c) s"

definition iso8601_timestamp :: "string \<Rightarrow> bool" where
  "iso8601_timestamp s =
     (mask s = ''dddd-dd-ddTdd:dd:dd'' \<or> mask s = ''dddd-dd-ddTdd:dd:dd.dddddd'')"

text \<open>
  A table of callbacks with one callback that returns a string instead of a payload.
\<close>

definition broken_callbacks :: callbacks where
  "broken_callbacks now =
     map_of [(''Heartbeat'', call_result_message_decorator (\<lambda>args kw. Inr (PStr ''pong'')))]"

text \<open>
  The row that \<^verbatim>\<open>receive\<close> stores for the frame \<open>accepted_reply\<close> when it arrives over
  the connection of the charger \<open>charger_id\<close> and is linked to the first stored call.
\<close>

definition stored_reply :: "string \<Rightarrow> result_row" where
  "stored_reply charger_id =
     received_call_result charger_id (PStr ''id1'') (PDict [(''status'', PStr ''Accepted'')]) (Some 0)"

section \<open>Issuing a call\<close>

lemma remote_start_request_serialize:
  "serialize remote_start_request =
     Inr (PDict [(''idTag'', PDict [(''IdToken'', PStr ''abc'')]), (''connectorId'', PInt 1)])"
  by (simp add: remote_start_request_def RemoteStartTransaction_Req_def IdToken_def
      OcppType_init_def serialize_def)

text \<open>
  No class of \<^verbatim>\<open>ocpp_lib/types.py\<close> has an attribute \<^verbatim>\<open>split\<close>, so the first statement
  of \<^verbatim>\<open>issue_command\<close> raises for every request, before anything is stored or sent.
\<close>

lemma issue_command_always_raises:
  "issue_command random_id tables charger_id request shouldAwait await_period await_interval w
     = (Inl OCPPInvalidType, w)"
  by (simp add: issue_command_def class_getattr_def ocpp_class_attributes_def split: pyval.splits)

text \<open>
  C1 (remote start round trip). The claim: \<^verbatim>\<open>issue_command\<close> for the charger \<^verbatim>\<open>CP1\<close>, the
  request built from idTag \<^verbatim>\<open>IdToken("abc")\<close> and connectorId 1, \<^verbatim>\<open>shouldAwait\<close> true and
  an await period of 10 sends the Call frame and returns the payload of the matching
  CallResult. The code at this input: whatever the random id, the later contents of the
  table, the await interval and the stored state are, \<^verbatim>\<open>issue_command\<close> raises
  \<^verbatim>\<open>OCPPInvalidType\<close> and leaves the state as it was, so no frame is sent and nothing
  is returned.
\<close>

theorem issue_command_remote_start_raises:
  "issue_command random_id tables ''CP1'' remote_start_request True 10 await_interval w
     = (Inl OCPPInvalidType, w)"
  by (simp add: issue_command_def class_getattr_def ocpp_class_attributes_def
      remote_start_request_def RemoteStartTransaction_Req_def)

section \<open>Awaiting a response\<close>









section \<open>Serializing payloads\<close>

lemma serialize_items_list_field:
  "(key, PList xs) \<in> set d \<Longrightarrow> \<exists>e. serialize_items d = Inl e"
  by (induction d) (auto split: sum.splits)

text \<open>
  Whatever else it holds, an \<^verbatim>\<open>OcppType\<close> with a list among its data does not serialize.
\<close>

lemma serialize_list_field_raises:
  "(key, PList xs) \<in> set d \<Longrightarrow> \<exists>e. serialize (PObj c d) = Inl e"
  using serialize_items_list_field [of key xs d] by (auto simp: serialize_def)

text \<open>
  C9 (list serialization). The claim: \<^verbatim>\<open>serialize()\<close> of a typed payload with a
  list-valued field serializes the list element by element, so that the output holds a
  list for that field. The code at a \<^verbatim>\<open>ChargingSchedule\<close> whose
  \<^verbatim>\<open>chargingSchedulePeriod\<close> is a list of one period: \<^verbatim>\<open>serialize()\<close> raises
  \<^verbatim>\<open>TypeError\<close> and there is no output.
\<close>

theorem serialize_example_schedule:
  "serialize example_schedule = Inl TypeError"
  by (simp add: example_schedule_def ChargingSchedule_def ChargingSchedulePeriod_def
      ChargingRateUnitType_A_def OcppType_init_def isinstance_list_def serialize_def)

section \<open>The decorator\<close>

text \<open>
  C10 (message id as keyword only). For every function wrapped by
  \<^verbatim>\<open>call_result_message_decorator\<close> and every call of the wrapper: when the wrapped
  function returns a value that serializes to a dictionary (or is a dictionary already)
  and \<^verbatim>\<open>message_id\<close> is not among the keyword arguments, the wrapper raises
  \<^verbatim>\<open>KeyError\<close>, whatever the positional arguments are.
\<close>

theorem call_result_message_decorator_needs_keyword:
  assumes "function args kw = Inr r"
    and "serialize r = Inr (PDict payload) \<or> r = PDict payload"
    and "''message_id'' \<notin> set (map fst kw)"
  shows "call_result_message_decorator function args kw = Inl KeyError"
proof -
  from assms(2) have "decorator_payload function args kw = Inr (PDict payload)"
  proof
    assume "serialize r = Inr (PDict payload)"
    with assms(1) show ?thesis by (simp add: decorator_payload_def)
  next
    assume "r = PDict payload"
    with assms(1) show ?thesis by (simp add: decorator_payload_def serialize_def)
  qed
  with assms(3) show ?thesis
    by (simp add: call_result_message_decorator_def isinstance_dict_def)
qed

text \<open>
  The theorem at the \<^verbatim>\<open>BootNotification\<close> callback called with the message id and the
  payload as positional arguments: the callback succeeds, the wrapper raises.
\<close>

theorem call_result_message_decorator_needs_keyword_witness:
  "BootNotification example_time [PStr ''msg1'', PDict []] [] =
      Inr (BootNotification_Conf (PDateTime example_time) (PInt 10) RegistrationStatus_Accepted)
   \<and> serialize (BootNotification_Conf (PDateTime example_time) (PInt 10) RegistrationStatus_Accepted) =
      Inr (PDict [(''currentTime'', PStr (isoformat example_time)), (''interval'', PInt 10),
                  (''status'', PStr ''Accepted'')])
   \<and> ''message_id'' \<notin> set (map fst ([] :: kwargs))
   \<and> call_result_message_decorator (BootNotification example_time) [PStr ''msg1'', PDict []] []
        = Inl KeyError"
proof -
  have f: "BootNotification example_time [PStr ''msg1'', PDict []] [] =
      Inr (BootNotification_Conf (PDateTime example_time) (PInt 10) RegistrationStatus_Accepted)"
    by (simp add: BootNotification_def callback_body_def bind_params_def)
  have s: "serialize (BootNotification_Conf (PDateTime example_time) (PInt 10) RegistrationStatus_Accepted) =
      Inr (PDict [(''currentTime'', PStr (isoformat example_time)), (''interval'', PInt 10),
                  (''status'', PStr ''Accepted'')])"
    by (simp add: BootNotification_Conf_def RegistrationStatus_Accepted_def OcppType_init_def
        serialize_def)
  have k: "''message_id'' \<notin> set (map fst ([] :: kwargs))" by simp
  have s': "serialize (BootNotification_Conf (PDateTime example_time) (PInt 10) RegistrationStatus_Accepted) =
      Inr (PDict [(''currentTime'', PStr (isoformat example_time)), (''interval'', PInt 10),
                  (''status'', PStr ''Accepted'')])
    \<or> BootNotification_Conf (PDateTime example_time) (PInt 10) RegistrationStatus_Accepted =
      PDict [(''currentTime'', PStr (isoformat example_time)), (''interval'', PInt 10),
             (''status'', PStr ''Accepted'')]"
    using s by (rule disjI1)
  show ?thesis
    using f s s' k
      call_result_message_decorator_needs_keyword
        [of "BootNotification example_time" "[PStr ''msg1'', PDict []]" "[]"
            "BootNotification_Conf (PDateTime example_time) (PInt 10) RegistrationStatus_Accepted"
            "[(''currentTime'', PStr (isoformat example_time)), (''interval'', PInt 10),
              (''status'', PStr ''Accepted'')]"]
    by simp
qed

section \<open>Receiving frames\<close>

subsection \<open>Auxiliary facts\<close>

lemma mask_append: "mask (a @ b) = mask a @ mask b"
  by (simp add: mask_def)

lemma digit_char: "n < 10 \<Longrightarrow> ''0123456789'' ! n \<in> set ''0123456789''"
  by (rule nth_mem) simp

lemma mask_digits: "mask (digits w n) = replicate w (CHR ''d'')"
proof (induction w arbitrary: n)
  case 0
  show ?case by (simp add: mask_def)
next
  case (Suc w)
  have "n mod 10 < 10" by simp
  from digit_char [OF this] have "mask [''0123456789'' ! (n mod 10)] = ''d''"
    by (simp add: mask_def)
  with Suc.IH [of "n div 10"] show ?case
    by (simp add: mask_append replicate_append_same)
qed

lemma replicate_2: "replicate 2 c = [c, c]"
  by (simp add: numeral_2_eq_2)

lemma replicate_4: "replicate 4 c = [c, c, c, c]"
  by (simp add: numeral_eq_Suc)

lemma replicate_6: "replicate 6 c = [c, c, c, c, c, c]"
  by (simp add: numeral_eq_Suc)

lemma mask_Nil: "mask [] = []"
  by (simp add: mask_def)

lemma mask_Cons:
  "mask (c # s) = (if c \<in> set ''0123456789'' then CHR ''d'' else c) # mask s"
  by (simp add: mask_def)

lemma isoformat_iso8601: "iso8601_timestamp (isoformat d)"
  by (simp add: iso8601_timestamp_def isoformat_def mask_append mask_digits
      replicate_2 replicate_4 replicate_6 mask_Nil mask_Cons)

lemma Call_save_other:
  "sent (snd (Call_save c w)) = sent w" "logs (snd (Call_save c w)) = logs w"
  "results (snd (Call_save c w)) = results w"
  by (auto simp: Call_save_def split: option.splits)

lemma CallResult_save_other:
  "sent (snd (CallResult_save r w)) = sent w" "logs (snd (CallResult_save r w)) = logs w"
  "calls (snd (CallResult_save r w)) = calls w"
  by (auto simp: CallResult_save_def split: option.splits)

lemma save_and_link_sent:
  "sent (snd (save_and_link_call_and_result c r w)) = sent w"
proof -
  obtain a1 w1 where s1: "Call_save c w = (a1, w1)" by (cases "Call_save c w")
  have e1: "sent w1 = sent w" using Call_save_other(1) [of c w] s1 by simp
  show ?thesis
  proof (cases a1)
    case (Inl e)
    with s1 e1 show ?thesis by (simp add: save_and_link_call_and_result_def)
  next
    case (Inr c1)
    obtain a2 w2 where s2: "CallResult_save r w1 = (a2, w2)" by (cases "CallResult_save r w1")
    have e2: "sent w2 = sent w" using CallResult_save_other(1) [of r w1] s2 e1 by simp
    show ?thesis
    proof (cases a2)
      case (Inl e)
      with s1 s2 e2 \<open>a1 = Inr c1\<close> show ?thesis by (simp add: save_and_link_call_and_result_def)
    next
      case (Inr r1)
      let ?c = "(fst c1, (snd c1)\<lparr>call_call_result_obj := fst r1\<rparr>)"
      obtain a3 w3 where s3: "Call_save ?c w2 = (a3, w3)" by (cases "Call_save ?c w2")
      have e3: "sent w3 = sent w" using Call_save_other(1) [of ?c w2] s3 e2 by simp
      show ?thesis
      proof (cases a3)
        case (Inl e)
        with s1 s2 s3 e3 \<open>a1 = Inr c1\<close> \<open>a2 = Inr r1\<close> show ?thesis
          by (simp add: save_and_link_call_and_result_def)
      next
        case (Inr c2)
        let ?r = "(fst r1, (snd r1)\<lparr>res_call_obj := fst c2\<rparr>)"
        obtain a4 w4 where s4: "CallResult_save ?r w3 = (a4, w4)" by (cases "CallResult_save ?r w3")
        have e4: "sent w4 = sent w" using CallResult_save_other(1) [of ?r w3] s4 e3 by simp
        from s1 s2 s3 s4 e4 \<open>a1 = Inr c1\<close> \<open>a2 = Inr r1\<close> \<open>a3 = Inr c2\<close> show ?thesis
          by (cases a4) (simp_all add: save_and_link_call_and_result_def)
      qed
    qed
  qed
qed

lemma subscript_list:
  "subscript (PList (a # xs)) 0 = Inr a"
  "subscript (PList (a # b # xs)) 1 = Inr b"
  "subscript (PList (a # b # xs)) (Suc 0) = Inr b"
  "subscript (PList (a # b # c # xs)) 2 = Inr c"
  "subscript (PList (a # b # c # d # xs)) 3 = Inr d"
  by (simp_all add: subscript_def eval_nat_numeral)

lemma lookup_numbers:
  "OCPPMessageType_lookup (PInt 2) = Inr CALL"
  "OCPPMessageType_lookup (PInt 3) = Inr CALL_RESULT"
  "OCPPMessageType_lookup (PInt 4) = Inr CALL_ERROR"
  by (simp_all add: OCPPMessageType_lookup_def OCPPMessageType_of_number_def)

lemma receive_Call:
  "receive cbs now charger_id (PList (PInt 2 # xs)) w =
     receive_call cbs now charger_id (PList (PInt 2 # xs)) (log INFO (log INFO w))"
  by (simp add: receive_def subscript_list lookup_numbers)

lemma receive_CallResult:
  "receive cbs now charger_id (PList (PInt 3 # xs)) w =
     receive_call_result charger_id (PList (PInt 3 # xs)) (log INFO (log INFO w))"
  by (simp add: receive_def subscript_list lookup_numbers)

lemma receive_CallError:
  "receive cbs now charger_id (PList (PInt 4 # xs)) w = (Inr (), log INFO (log INFO w))"
  by (simp add: receive_def subscript_list lookup_numbers)



lemma BootNotification_response:
  "call_result_message_decorator (BootNotification now) []
     [(''message_id'', message_id), (''call_payload'', payload)] =
   Inr (PList [PInt 3, message_id,
     PDict [(''currentTime'', PStr (isoformat now)), (''interval'', PInt 10),
            (''status'', PStr ''Accepted'')]])"
  by (simp add: call_result_message_decorator_def decorator_payload_def BootNotification_def
      callback_body_def bind_params_def BootNotification_Conf_def RegistrationStatus_Accepted_def
      OcppType_init_def serialize_def isinstance_dict_def dict_get_def OCPPMessageType_value_def)

subsection \<open>The boot scenario\<close>

text \<open>
  C8 (boot scenario). For the inbound frame \<^verbatim>\<open>[2, "msg1", "BootNotification", {}]\<close>, over
  the connection of any charger, at any time and in any stored state, \<^verbatim>\<open>receive\<close> hands
  exactly one frame to the charger's group: \<^verbatim>\<open>[3, "msg1", p]\<close>, with the message id of
  the call, where \<open>p\<close> has exactly the keys \<^verbatim>\<open>currentTime\<close>, \<^verbatim>\<open>interval\<close> and
  \<^verbatim>\<open>status\<close>, the interval is 10, the status is \<^verbatim>\<open>"Accepted"\<close> and the current time
  is the \<^verbatim>\<open>isoformat()\<close> text of the clock, which has the shape of an ISO 8601
  timestamp.
\<close>

theorem receive_BootNotification:
  "sent (snd (receive Callbacks now charger_id
            (PList [PInt 2, PStr ''msg1'', PStr ''BootNotification'', PDict []]) w)) =
     sent w @ [(''ocpp_'' @ charger_id,
                PList [PInt 3, PStr ''msg1'',
                  PDict [(''currentTime'', PStr (isoformat now)), (''interval'', PInt 10),
                         (''status'', PStr ''Accepted'')]])]
   \<and> iso8601_timestamp (isoformat now)"
  by (simp add: receive_Call receive_call_def subscript_list OCPPCommands_getitem_def
      OCPPCommands_def Callbacks_def BootNotification_response send_and_store_def json_dumps_def
      save_and_link_sent group_send_def log_def isoformat_iso8601 invoke_callback_def)

subsection \<open>Unknown actions\<close>

text \<open>
  C4 (unknown action), as the code has it. For every inbound Call frame
  \<^verbatim>\<open>[2, id, action, payload, ...]\<close> whose action is no member of \<^verbatim>\<open>OCPPCommands\<close>,
  \<^verbatim>\<open>receive\<close> logs a critical record and returns normally: no frame is sent to any
  charger, in particular no CallError, and nothing is stored.
\<close>

theorem receive_unknown_action:
  assumes "OCPPCommands_getitem action = None"
  shows "receive cbs now charger_id (PList (PInt 2 # message_id # action # payload # rest)) w =
           (Inr (), w\<lparr>logs := logs w @ [INFO, INFO, CRITICAL]\<rparr>)"
  using assms by (simp add: receive_Call receive_call_def subscript_list log_def)

theorem receive_unknown_action_witness:
  "OCPPCommands_getitem (PStr ''Foo'') = None \<and>
   receive Callbacks example_time ''CP1'' (PList (PInt 2 # PStr ''msg1'' # PStr ''Foo'' # PDict [] # [])) empty_world =
     (Inr (), empty_world\<lparr>logs := logs empty_world @ [INFO, INFO, CRITICAL]\<rparr>)"
proof -
  have h: "OCPPCommands_getitem (PStr ''Foo'') = None"
    by (simp add: OCPPCommands_getitem_def OCPPCommands_def)
  from h receive_unknown_action [OF h] show ?thesis by simp
qed

text \<open>
  The claim as stated asks for a CallError with the code \<^verbatim>\<open>NotImplemented\<close> in answer to
  \<^verbatim>\<open>[2, "msg1", "Foo", {}]\<close>; the code sends nothing.
\<close>

theorem receive_unknown_action_sends_nothing:
  "receive Callbacks example_time ''CP1'' (PList [PInt 2, PStr ''msg1'', PStr ''Foo'', PDict []]) empty_world =
     (Inr (), \<lparr>calls = [], results = [], sent = [], logs = [INFO, INFO, CRITICAL]\<rparr>)"
  by (simp add: receive_Call receive_call_def subscript_list log_def OCPPCommands_getitem_def
      OCPPCommands_def empty_world_def)

subsection \<open>Callbacks that fail\<close>

text \<open>
  C5 (handler failure), as the code has it. For every inbound Call frame whose action is a
  member of \<^verbatim>\<open>OCPPCommands\<close> and whose callback invocation raises \<open>e\<close> (there is no
  callback of that name, which is an \<^verbatim>\<open>AttributeError\<close>, or the callback or its
  decorator raises), \<^verbatim>\<open>receive\<close> logs the failure, as a warning for an
  \<^verbatim>\<open>AttributeError\<close> and as an error otherwise, and returns normally: the exception
  does not leave \<^verbatim>\<open>receive\<close>, no frame is sent, in particular no CallError, and
  nothing is stored.
\<close>

theorem receive_handler_failure:
  assumes "OCPPCommands_getitem action = Some name"
    and "invoke_callback cbs now name message_id payload = Inl e"
  shows "receive cbs now charger_id (PList (PInt 2 # message_id # action # payload # rest)) w =
           (Inr (), w\<lparr>logs := logs w @ [INFO, INFO, if e = AttributeError then WARNING else ERROR]\<rparr>)"
  using assms by (simp add: receive_Call receive_call_def subscript_list log_def)

theorem receive_handler_failure_witness:
  "OCPPCommands_getitem (PStr ''ClearCache'') = Some ''ClearCache'' \<and>
   invoke_callback Callbacks example_time ''ClearCache'' (PStr ''msg1'') (PDict []) = Inl AttributeError \<and>
   receive Callbacks example_time ''CP1'' (PList (PInt 2 # PStr ''msg1'' # PStr ''ClearCache'' # PDict [] # [])) empty_world =
     (Inr (), empty_world\<lparr>logs := logs empty_world @
        [INFO, INFO, WARNING]\<rparr>)"
proof -
  have h1: "OCPPCommands_getitem (PStr ''ClearCache'') = Some ''ClearCache''"
    by (simp add: OCPPCommands_getitem_def OCPPCommands_def)
  have h2: "invoke_callback Callbacks example_time ''ClearCache'' (PStr ''msg1'') (PDict []) = Inl AttributeError"
    by (simp add: invoke_callback_def Callbacks_def)
  from h1 h2 receive_handler_failure [OF h1 h2] show ?thesis by simp
qed

text \<open>
  The claim as stated asks for a CallError frame; for \<^verbatim>\<open>[2, "msg1", "ClearCache", {}]\<close>,
  a valid action that \<^verbatim>\<open>Call.Callbacks\<close> does not handle, the code sends nothing.
\<close>

theorem receive_ClearCache_sends_nothing:
  "receive Callbacks example_time ''CP1'' (PList [PInt 2, PStr ''msg1'', PStr ''ClearCache'', PDict []]) empty_world =
     (Inr (), \<lparr>calls = [], results = [], sent = [], logs = [INFO, INFO, WARNING]\<rparr>)"
  by (simp add: receive_Call receive_call_def subscript_list log_def OCPPCommands_getitem_def
      OCPPCommands_def empty_world_def invoke_callback_def Callbacks_def)

text \<open>
  The same for a callback that exists and raises: the decorator refuses the string with a
  \<^verbatim>\<open>ValueError\<close>, which is logged, and nothing is sent.
\<close>

lemma receive_broken_callback:
  "receive broken_callbacks example_time ''CP1'' (PList [PInt 2, PStr ''msg1'', PStr ''Heartbeat'', PDict []]) empty_world =
     (Inr (), \<lparr>calls = [], results = [], sent = [], logs = [INFO, INFO, ERROR]\<rparr>)"
  by (simp add: receive_Call receive_call_def subscript_list log_def OCPPCommands_getitem_def
      OCPPCommands_def empty_world_def invoke_callback_def broken_callbacks_def
      call_result_message_decorator_def decorator_payload_def serialize_def isinstance_dict_def)

subsection \<open>Malformed frames\<close>

text \<open>
  A frame whose first element is no message type, and a frame without elements, end
  \<^verbatim>\<open>receive\<close> with an exception.
\<close>

lemma receive_unknown_message_type:
  assumes "OCPPMessageType_lookup v = Inl e"
  shows "receive cbs now charger_id (PList (v # xs)) w =
           (Inl UnboundLocalError, w\<lparr>logs := logs w @ [INFO, CRITICAL]\<rparr>)"
  using assms by (simp add: receive_def subscript_list log_def)

lemma receive_empty_frame:
  "receive cbs now charger_id (PList []) w = (Inl IndexError, w\<lparr>logs := logs w @ [INFO]\<rparr>)"
  by (simp add: receive_def subscript_def log_def)

lemma receive_call_short:
  assumes "length xs < 3"
  shows "receive_call cbs now charger_id (PList (t # xs)) w = (Inl IndexError, w)"
proof -
  consider "xs = []" | a where "xs = [a]" | a b where "xs = [a, b]"
    using assms by (cases xs; cases "tl xs"; cases "tl (tl xs)") auto
  then show ?thesis
    by cases (simp_all add: receive_call_def subscript_def eval_nat_numeral)
qed

lemma receive_call_result_wrong_length:
  assumes "length xs \<noteq> 2"
  shows "receive_call_result charger_id (PList (t # xs)) w = (Inl ValueError, w)"
proof -
  have "(case xs of [message_id, payload] \<Rightarrow> f message_id payload | other \<Rightarrow> g) = g" for f and g :: "(error + unit) \<times> world"
    using assms by (cases xs; cases "tl xs"; cases "tl (tl xs)") auto
  then show ?thesis
    by (simp add: receive_call_result_def slice_from_1_def)
qed

text \<open>
  The elements of a Call frame after the fourth are never read.
\<close>

lemma receive_call_extra_elements:
  "receive cbs now charger_id (PList (PInt 2 # message_id # action # payload # rest)) w =
   receive cbs now charger_id (PList [PInt 2, message_id, action, payload]) w"
  by (simp add: receive_Call receive_call_def subscript_list)

text \<open>
  C6 (frames of the wrong length), as the code has it. For a frame whose first element is
  2, 3 or 4 and whose length is wrong for its kind, no reply is sent and nothing is
  stored, but only a CallError frame is dropped without failure: a Call frame with fewer
  than four elements ends \<^verbatim>\<open>receive\<close> with an \<^verbatim>\<open>IndexError\<close>, a CallResult frame with
  other than three elements ends it with a \<^verbatim>\<open>ValueError\<close>, and a CallError frame of any
  length is logged and \<^verbatim>\<open>receive\<close> returns normally.
\<close>

theorem receive_wrong_length:
  "(length xs < 3 \<longrightarrow>
      receive cbs now charger_id (PList (PInt 2 # xs)) w =
        (Inl IndexError, w\<lparr>logs := logs w @ [INFO, INFO]\<rparr>))
   \<and> (length xs \<noteq> 2 \<longrightarrow>
      receive cbs now charger_id (PList (PInt 3 # xs)) w =
        (Inl ValueError, w\<lparr>logs := logs w @ [INFO, INFO]\<rparr>))
   \<and> receive cbs now charger_id (PList (PInt 4 # xs)) w =
        (Inr (), w\<lparr>logs := logs w @ [INFO, INFO]\<rparr>)"
  by (simp add: receive_Call receive_CallResult receive_CallError receive_call_short
      receive_call_result_wrong_length log_def)

theorem receive_wrong_length_witness:
  "(length [PStr ''id1''] < 3 \<and>
      receive Callbacks example_time ''CP1'' (PList (PInt 2 # [PStr ''id1''])) empty_world =
        (Inl IndexError, empty_world\<lparr>logs := logs empty_world @ [INFO, INFO]\<rparr>))
   \<and> (length [PStr ''id1''] \<noteq> 2 \<and>
      receive Callbacks example_time ''CP1'' (PList (PInt 3 # [PStr ''id1''])) empty_world =
        (Inl ValueError, empty_world\<lparr>logs := logs empty_world @ [INFO, INFO]\<rparr>))
   \<and> receive Callbacks example_time ''CP1'' (PList (PInt 4 # [PStr ''id1''])) empty_world =
        (Inr (), empty_world\<lparr>logs := logs empty_world @ [INFO, INFO]\<rparr>)"
  using receive_wrong_length [of "[PStr ''id1'']" Callbacks example_time "''CP1''" empty_world]
  by simp

text \<open>
  The claim as stated says that processing a frame of the wrong length does not fail; the
  CallResult frame \<^verbatim>\<open>[3, "id1"]\<close> ends \<^verbatim>\<open>receive\<close> with a \<^verbatim>\<open>ValueError\<close>.
\<close>

theorem receive_short_call_result_raises:
  "receive Callbacks example_time ''CP1'' (PList [PInt 3, PStr ''id1'']) empty_world =
     (Inl ValueError, \<lparr>calls = [], results = [], sent = [], logs = [INFO, INFO]\<rparr>)"
  by (simp add: receive_CallResult receive_call_result_def slice_from_1_def log_def empty_world_def)

subsection \<open>Responses without a pending call\<close>







lemma receive_accepted_reply:
  "receive cbs now charger_id accepted_reply world_with_call =
     (Inr (), world_with_call
        \<lparr>calls := [(calls world_with_call ! 0)\<lparr>call_call_result_obj := Some 0\<rparr>],
         results := [stored_reply charger_id],
         logs := [INFO, INFO]\<rparr>)"
  by (simp add: accepted_reply_def receive_CallResult receive_call_result_def slice_from_1_def
      world_with_call_def Call_objects_filter_def log_def save_and_link_call_and_result_def
      Call_save_def CallResult_save_def stored_reply_def received_call_result_def OCPPMessageType_value_def)


text \<open>
  A second response to a call that already has one is not dropped either: the one-to-one
  column refuses the second row and \<^verbatim>\<open>receive\<close> ends with an \<^verbatim>\<open>IntegrityError\<close>.
\<close>

lemma second_reply_raises:
  "receive cbs now charger_id accepted_reply
     (snd (receive cbs now charger_id accepted_reply world_with_call)) =
   (Inl IntegrityError,
    (snd (receive cbs now charger_id accepted_reply world_with_call))\<lparr>logs := [INFO, INFO, INFO, INFO]\<rparr>)"
  by (simp add: receive_accepted_reply)
     (simp add: accepted_reply_def receive_CallResult receive_call_result_def slice_from_1_def
      world_with_call_def Call_objects_filter_def log_def save_and_link_call_and_result_def
      Call_save_def CallResult_save_def stored_reply_def received_call_result_def OCPPMessageType_value_def)

subsection \<open>Correlating a response with its call\<close>











end
